theory Spec2Isabelle
  imports Main "HOL-Library.Word"
begin

section \<open>Outcomes of a call\<close>

text \<open>
  The library reports nothing through return codes. What can go wrong in a call is an
  exception of the standard library, a failed \<^verbatim>\<open>assert\<close>, a call through a null
  pointer, or the use of a variable that a failed stream read left uninitialised. Each is
  a value of \<open>fault\<close>. \<open>OutOfFuel\<close> is not a behaviour of the program: it is the
  answer of the decoder model when the nesting bound it was given is used up.
\<close>

datatype fault =
    bad_function_call
  | assertion_failed
  | null_dereference
  | indeterminate_value

datatype 'a res = Returns 'a | Fails fault | OutOfFuel

definition res_bind :: "'a res \<Rightarrow> ('a \<Rightarrow> 'b res) \<Rightarrow> 'b res" where
  "res_bind m f = (case m of Returns x \<Rightarrow> f x | Fails e \<Rightarrow> Fails e | OutOfFuel \<Rightarrow> OutOfFuel)"

section \<open>Object representation of fixed-width values\<close>

text \<open>
  \<^verbatim>\<open>mock_stream::write(const TValue&)\<close> copies \<^verbatim>\<open>sizeof(val)\<close> bytes of the object,
  \<^verbatim>\<open>read(TValue&)\<close> copies them back. The target is taken to be little-endian with a
  64-bit \<^verbatim>\<open>std::size_t\<close>. A \<^verbatim>\<open>double\<close> is carried as its 64-bit pattern: the library
  never computes with it.
\<close>

type_synonym byte = "8 word"
type_synonym size_t = "64 word"

definition object_bytes :: "'a::len word \<Rightarrow> byte list" where
  "object_bytes w = map (\<lambda>i. ucast (drop_bit (8 * i) w)) [0..<LENGTH('a) div 8]"

definition from_object_bytes :: "byte list \<Rightarrow> 'a::len word" where
  "from_object_bytes bs = word_rcat (rev bs)"

definition byte_of_char :: "char \<Rightarrow> byte" where
  "byte_of_char c = word_of_nat (of_char c)"

definition char_of_byte :: "byte \<Rightarrow> char" where
  "char_of_byte b = char_of (unat b)"

text \<open>\<^verbatim>\<open>std::vector::resize\<close> and \<^verbatim>\<open>std::string::resize\<close>: cut, or pad with zero elements.\<close>

definition resize :: "nat \<Rightarrow> 'a \<Rightarrow> 'a list \<Rightarrow> 'a list" where
  "resize n z xs = take n xs @ replicate (n - length xs) z"

section \<open>The stream of the tests: \<^verbatim>\<open>mock_stream\<close>\<close>

text \<open>
  A \<^verbatim>\<open>std::stringstream\<close>: \<open>stream_impl\<close> holds the bytes written and not yet read,
  \<open>failbit\<close> is set by the first read that asks for more than is there, and from then
  on every read and write does nothing.
\<close>

record mock_stream =
  stream_impl :: "byte list"
  failbit :: bool

definition mock_stream_default :: mock_stream where
  "mock_stream_default = \<lparr>stream_impl = [], failbit = False\<rparr>"

definition write_raw :: "byte list \<Rightarrow> mock_stream \<Rightarrow> mock_stream" where
  "write_raw data s = (if failbit s then s else s\<lparr>stream_impl := stream_impl s @ data\<rparr>)"

text \<open>
  \<open>read_raw n s\<close> gives the bytes that were stored at the front of the destination
  buffer (all \<open>n\<close> of them, or fewer when the stream ran dry) and the stream afterwards.
\<close>

definition read_raw :: "nat \<Rightarrow> mock_stream \<Rightarrow> byte list \<times> mock_stream" where
  "read_raw n s =
     (if failbit s then ([], s)
      else if n \<le> length (stream_impl s)
        then (take n (stream_impl s), s\<lparr>stream_impl := drop n (stream_impl s)\<rparr>)
      else (stream_impl s, s\<lparr>stream_impl := [], failbit := True\<rparr>))"

definition write_val :: "'a::len word \<Rightarrow> mock_stream \<Rightarrow> mock_stream" where
  "write_val val s = write_raw (object_bytes val) s"

text \<open>
  \<^verbatim>\<open>TValue val; read(val); return val;\<close> and \<^verbatim>\<open>read(val)\<close> on a data member. A short
  read leaves (part of) \<open>val\<close> uninitialised: its value is indeterminate from then on,
  and the model stops there.
\<close>

definition read_val :: "mock_stream \<Rightarrow> ('a::len word \<times> mock_stream) res" where
  "read_val s =
     (case read_raw (LENGTH('a) div 8) s of
        (got, s') \<Rightarrow>
          if length got = LENGTH('a) div 8 then Returns (from_object_bytes got, s')
          else Fails indeterminate_value)"

definition vector_size :: "'a list \<Rightarrow> size_t" where
  "vector_size xs = word_of_nat (length xs)"

text \<open>
  The specialisations for \<^verbatim>\<open>std::string\<close>. The length is cast to \<^verbatim>\<open>uint16_t\<close>, the
  bytes are written in full. Reading a length of zero leaves the destination as it was.
\<close>

definition write_string :: "string \<Rightarrow> mock_stream \<Rightarrow> mock_stream" where
  "write_string val s =
     write_raw (map byte_of_char val) (write_val (ucast (vector_size val) :: 16 word) s)"

definition read_string :: "string \<Rightarrow> mock_stream \<Rightarrow> (string \<times> mock_stream) res" where
  "read_string val s =
     res_bind (read_val s) (\<lambda>(size :: 16 word, s1).
       if 0 < size then
         (case read_raw (unat size) s1 of
            (got, s2) \<Rightarrow>
              Returns (map char_of_byte got
                       @ drop (length got) (resize (unat size) (CHR 0x00) val), s2))
       else Returns (val, s1))"

section \<open>The tag enumeration\<close>

datatype e_argument_type =
    int32
  | uint64
  | float64
  | string
  | array
  | struct_value
  | file_tag
  | blob
  | count

text \<open>
  The enumerators in the order of their declaration; the value of each is its position.
  \<open>file_tag\<close> is the enumerator \<^verbatim>\<open>file\<close>, a word Isabelle reserves.
\<close>

definition enumerators :: "e_argument_type list" where
  "enumerators = [int32, uint64, float64, string, array, struct_value, file_tag, blob, count]"

fun position :: "'a \<Rightarrow> 'a list \<Rightarrow> nat" where
  "position x [] = 0"
| "position x (y # ys) = (if x = y then 0 else Suc (position x ys))"

definition underlying :: "e_argument_type \<Rightarrow> byte" where
  "underlying t = word_of_nat (position t enumerators)"

definition write_enum :: "e_argument_type \<Rightarrow> mock_stream \<Rightarrow> mock_stream" where
  "write_enum t s = write_val (underlying t) s"

text \<open>A value of the enumeration read from a stream is any byte, named or not.\<close>

definition read_enum :: "mock_stream \<Rightarrow> (byte \<times> mock_stream) res" where
  "read_enum s = read_val s"

section \<open>The value model\<close>

text \<open>
  One constructor per concrete class: the four instances of \<^verbatim>\<open>argument_generic\<close>,
  \<^verbatim>\<open>argument_blob\<close>, \<^verbatim>\<open>argument_struct\<close> and the five instances of \<^verbatim>\<open>array\<close> that
  its \<^verbatim>\<open>static_assert\<close> admits. Owning pointers are the objects they point to.
\<close>

datatype argument =
    int32_arg string "32 word"
  | uint64_arg string "64 word"
  | float64_arg string "64 word"
  | string_arg string string
  | blob_arg string "byte list"
  | struct_arg argument_struct
  | array_int32 string "32 word list"
  | array_uint64 string "64 word list"
  | array_double string "64 word list"
  | array_string string "string list"
  | array_struct string "argument_struct list"
and argument_struct =
    Argument_struct string "argument list"

fun struct_name :: "argument_struct \<Rightarrow> string" where
  "struct_name (Argument_struct n vs) = n"

fun struct_values :: "argument_struct \<Rightarrow> argument list" where
  "struct_values (Argument_struct n vs) = vs"

fun get_name :: "argument \<Rightarrow> string" where
  "get_name (int32_arg n v) = n"
| "get_name (uint64_arg n v) = n"
| "get_name (float64_arg n v) = n"
| "get_name (string_arg n v) = n"
| "get_name (blob_arg n v) = n"
| "get_name (struct_arg st) = struct_name st"
| "get_name (array_int32 n v) = n"
| "get_name (array_uint64 n v) = n"
| "get_name (array_double n v) = n"
| "get_name (array_string n v) = n"
| "get_name (array_struct n v) = n"

text \<open>The tag each class hands to the constructor of \<^verbatim>\<open>argument\<close>.\<close>

fun get_type :: "argument \<Rightarrow> e_argument_type" where
  "get_type (int32_arg n v) = int32"
| "get_type (uint64_arg n v) = uint64"
| "get_type (float64_arg n v) = float64"
| "get_type (string_arg n v) = string"
| "get_type (blob_arg n v) = blob"
| "get_type (struct_arg st) = struct_value"
| "get_type (array_int32 n v) = array"
| "get_type (array_uint64 n v) = array"
| "get_type (array_double n v) = array"
| "get_type (array_string n v) = array"
| "get_type (array_struct n v) = array"

text \<open>
  \<^verbatim>\<open>array::get_type()\<close>, the initialiser of \<^verbatim>\<open>array_value_type\<close>. For an array of
  \<^verbatim>\<open>argument_struct*\<close> the test \<^verbatim>\<open>is_base_of_v<argument, TValue>\<close> is made on the pointer
  type and is false, no other test matches, and the function returns \<^verbatim>\<open>count\<close>.
\<close>

fun array_value_type :: "argument \<Rightarrow> e_argument_type option" where
  "array_value_type (array_int32 n v) = Some int32"
| "array_value_type (array_uint64 n v) = Some uint64"
| "array_value_type (array_string n v) = Some string"
| "array_value_type (array_double n v) = Some float64"
| "array_value_type (array_struct n v) = Some count"
| "array_value_type a = None"

section \<open>Writing\<close>

text \<open>
  \<^verbatim>\<open>argument::write\<close>, its override \<^verbatim>\<open>array::write\<close>, the \<^verbatim>\<open>write_value\<close> of each class
  and \<^verbatim>\<open>argument_struct::write_values\<close>. \<open>write_argument\<close> is \<^verbatim>\<open>write\<close>, a word
  Isabelle reserves.
\<close>

fun write_argument :: "argument \<Rightarrow> mock_stream \<Rightarrow> mock_stream"
  and write_value :: "argument \<Rightarrow> mock_stream \<Rightarrow> mock_stream"
  and write_values :: "argument_struct \<Rightarrow> mock_stream \<Rightarrow> mock_stream"
where
  "write_argument a s =
     (case array_value_type a of
        None \<Rightarrow> write_value a (write_string (get_name a) (write_enum (get_type a) s))
      | Some t \<Rightarrow>
          write_value a (write_string (get_name a) (write_enum t (write_enum (get_type a) s))))"
| "write_value (int32_arg n val) s = write_val val s"
| "write_value (uint64_arg n val) s = write_val val s"
| "write_value (float64_arg n val) s = write_val val s"
| "write_value (string_arg n val) s = write_string val s"
| "write_value (blob_arg n m_blob) s =
     write_raw m_blob (write_val (ucast (vector_size m_blob) :: 32 word) s)"
| "write_value (struct_arg st) s = write_values st s"
| "write_value (array_int32 n val) s = fold write_val val (write_val (vector_size val) s)"
| "write_value (array_uint64 n val) s = fold write_val val (write_val (vector_size val) s)"
| "write_value (array_double n val) s = fold write_val val (write_val (vector_size val) s)"
| "write_value (array_string n val) s = fold write_string val (write_val (vector_size val) s)"
| "write_value (array_struct n val) s = fold write_values val (write_val (vector_size val) s)"
| "write_values (Argument_struct n vs) s = fold write_argument vs (write_val (vector_size vs) s)"

section \<open>Reading\<close>

text \<open>
  The decoder \<^verbatim>\<open>serialize\<close> calls itself for every child of a struct. In the model the
  decoder for the children is a parameter \<open>dec\<close> of everything below \<open>serialize\<close>, and
  \<open>serialize\<close> passes itself with one unit of fuel less: the fuel bounds the nesting of
  structs, not the length of the stream.
\<close>

type_synonym decoder = "mock_stream \<Rightarrow> (argument \<times> mock_stream) res"

text \<open>
  The three loops \<^verbatim>\<open>for (i = 0; i < size; ++i) ... emplace_back(...)\<close>: an element is read
  from the stream and appended, \<open>k\<close> times, unless reading one fails.
\<close>

primrec read_loop ::
  "(mock_stream \<Rightarrow> ('e \<times> mock_stream) res) \<Rightarrow> nat \<Rightarrow> 'e list \<Rightarrow> mock_stream
     \<Rightarrow> ('e list \<times> mock_stream) res" where
  "read_loop rd 0 val s = Returns (val, s)"
| "read_loop rd (Suc k) val s = res_bind (rd s) (\<lambda>(v, s'). read_loop rd k (val @ [v]) s')"

definition read_values ::
  "decoder \<Rightarrow> argument_struct \<Rightarrow> mock_stream \<Rightarrow> (argument_struct \<times> mock_stream) res" where
  "read_values dec st s =
     res_bind (read_val s) (\<lambda>(size :: size_t, s1).
     res_bind (read_loop dec (unat size) (struct_values st) s1) (\<lambda>(vs, s2).
       Returns (Argument_struct (struct_name st) vs, s2)))"

text \<open>The default constructor of \<^verbatim>\<open>argument_struct\<close>: no name, no children.\<close>

definition argument_struct_default :: argument_struct where
  "argument_struct_default = Argument_struct [] []"

text \<open>
  \<^verbatim>\<open>read_value\<close> of each class. The arrays reserve room, which only allocates; memory is
  taken to be available.
\<close>

fun read_value :: "decoder \<Rightarrow> argument \<Rightarrow> mock_stream \<Rightarrow> (argument \<times> mock_stream) res" where
  "read_value dec (int32_arg n val) s =
     res_bind (read_val s) (\<lambda>(v, s'). Returns (int32_arg n v, s'))"
| "read_value dec (uint64_arg n val) s =
     res_bind (read_val s) (\<lambda>(v, s'). Returns (uint64_arg n v, s'))"
| "read_value dec (float64_arg n val) s =
     res_bind (read_val s) (\<lambda>(v, s'). Returns (float64_arg n v, s'))"
| "read_value dec (string_arg n val) s =
     res_bind (read_string val s) (\<lambda>(v, s'). Returns (string_arg n v, s'))"
| "read_value dec (blob_arg n m_blob) s =
     res_bind (read_val s) (\<lambda>(size :: 32 word, s1).
       case read_raw (unat size) s1 of
         (got, s2) \<Rightarrow>
           Returns (blob_arg n (got @ drop (length got) (resize (unat size) 0 m_blob)), s2))"
| "read_value dec (struct_arg st) s =
     res_bind (read_values dec st s) (\<lambda>(st', s'). Returns (struct_arg st', s'))"
| "read_value dec (array_int32 n val) s =
     res_bind (read_val s) (\<lambda>(size :: size_t, s1).
     res_bind (read_loop read_val (unat size) val s1) (\<lambda>(v, s2).
       Returns (array_int32 n v, s2)))"
| "read_value dec (array_uint64 n val) s =
     res_bind (read_val s) (\<lambda>(size :: size_t, s1).
     res_bind (read_loop read_val (unat size) val s1) (\<lambda>(v, s2).
       Returns (array_uint64 n v, s2)))"
| "read_value dec (array_double n val) s =
     res_bind (read_val s) (\<lambda>(size :: size_t, s1).
     res_bind (read_loop read_val (unat size) val s1) (\<lambda>(v, s2).
       Returns (array_double n v, s2)))"
| "read_value dec (array_string n val) s =
     res_bind (read_val s) (\<lambda>(size :: size_t, s1).
     res_bind (read_loop (read_string []) (unat size) val s1) (\<lambda>(v, s2).
       Returns (array_string n v, s2)))"
| "read_value dec (array_struct n val) s =
     res_bind (read_val s) (\<lambda>(size :: size_t, s1).
     res_bind (read_loop (read_values dec argument_struct_default) (unat size) val s1)
       (\<lambda>(v, s2). Returns (array_struct n v, s2)))"

fun set_name :: "string \<Rightarrow> argument \<Rightarrow> argument" where
  "set_name m (int32_arg n v) = int32_arg m v"
| "set_name m (uint64_arg n v) = uint64_arg m v"
| "set_name m (float64_arg n v) = float64_arg m v"
| "set_name m (string_arg n v) = string_arg m v"
| "set_name m (blob_arg n v) = blob_arg m v"
| "set_name m (struct_arg st) = struct_arg (Argument_struct m (struct_values st))"
| "set_name m (array_int32 n v) = array_int32 m v"
| "set_name m (array_uint64 n v) = array_uint64 m v"
| "set_name m (array_double n v) = array_double m v"
| "set_name m (array_string n v) = array_string m v"
| "set_name m (array_struct n v) = array_struct m v"

text \<open>\<^verbatim>\<open>argument::read\<close>, which no class overrides: the name, then the payload.\<close>

definition read :: "decoder \<Rightarrow> argument \<Rightarrow> mock_stream \<Rightarrow> (argument \<times> mock_stream) res" where
  "read dec a s =
     res_bind (read_string (get_name a) s) (\<lambda>(name, s1). read_value dec (set_name name a) s1)"

section \<open>The registry and \<^verbatim>\<open>serialize\<close>\<close>

text \<open>
  An entry of \<^verbatim>\<open>factory_impl\<close> takes the stream and gives a pointer to a new object, or
  the null pointer. \<^verbatim>\<open>register_type\<close> stores a function that default-constructs the
  class of its second argument. The \<^verbatim>\<open>val\<close> of a default-constructed number is not
  initialised; the model writes \<open>0\<close> there, and \<open>read_value\<close> either replaces it or
  fails.
\<close>

type_synonym factory_fn = "mock_stream \<Rightarrow> (argument option \<times> mock_stream) res"

definition register_type :: "e_argument_type \<Rightarrow> argument \<Rightarrow> byte \<times> factory_fn" where
  "register_type t v = (underlying t, \<lambda>s. Returns (Some v, s))"

definition array_factory :: factory_fn where
  "array_factory s =
     res_bind (read_enum s) (\<lambda>(sub_type, s').
       if sub_type = underlying int32 then Returns (Some (array_int32 [] []), s')
       else if sub_type = underlying float64 then Returns (Some (array_double [] []), s')
       else if sub_type = underlying string then Returns (Some (array_string [] []), s')
       else if sub_type = underlying uint64 then Returns (Some (array_uint64 [] []), s')
       else if sub_type = underlying struct_value then Returns (Some (array_struct [] []), s')
       else Returns (None, s'))"

text \<open>The registrations in the order of the source. The keys are distinct.\<close>

definition factory_impl :: "(byte \<times> factory_fn) list" where
  "factory_impl =
     [register_type int32 (int32_arg [] 0),
      register_type float64 (float64_arg [] 0),
      register_type string (string_arg [] []),
      register_type uint64 (uint64_arg [] 0),
      register_type struct_value (struct_arg argument_struct_default),
      register_type blob (blob_arg [] []),
      (underlying array, array_factory)]"

text \<open>
  \<^verbatim>\<open>factory_impl[type](stream)\<close>: for a key that is not there, \<^verbatim>\<open>operator[]\<close> inserts
  an empty \<^verbatim>\<open>std::function\<close>, and calling it throws \<^verbatim>\<open>std::bad_function_call\<close>. The same
  happens at every later lookup of that key, so the registry is modelled as a constant.
  When the entry gives the null pointer, \<^verbatim>\<open>assert(new_argument)\<close> fails (and without
  assertions the next line calls through the null pointer).
\<close>

primrec serialize :: "nat \<Rightarrow> mock_stream \<Rightarrow> (argument \<times> mock_stream) res" where
  "serialize 0 s = OutOfFuel"
| "serialize (Suc fuel) s =
     res_bind (read_enum s) (\<lambda>(t, s1).
       case map_of factory_impl t of
         None \<Rightarrow> Fails bad_function_call
       | Some entry \<Rightarrow>
           res_bind (entry s1) (\<lambda>(new_argument, s2).
             case new_argument of
               None \<Rightarrow> Fails assertion_failed
             | Some a \<Rightarrow> read (serialize fuel) a s2))"

section \<open>Typed access\<close>

text \<open>
  \<^verbatim>\<open>get_value_internal\<close> gives the address of the data member of the object. The member
  is one of the following, each of the type its class declares.
\<close>

datatype cpp_type =
    int32_t
  | uint64_t
  | double
  | std_string
  | uint8_t
  | argument_ptr
  | argument_struct_ptr
  | std_vector cpp_type

datatype member =
    int32_member "32 word"
  | uint64_member "64 word"
  | double_member "64 word"
  | string_member string
  | blob_member "byte list"
  | values_member "argument list"
  | int32_vector "32 word list"
  | uint64_vector "64 word list"
  | double_vector "64 word list"
  | string_vector "string list"
  | struct_vector "argument_struct list"

fun member_type :: "member \<Rightarrow> cpp_type" where
  "member_type (int32_member v) = int32_t"
| "member_type (uint64_member v) = uint64_t"
| "member_type (double_member v) = double"
| "member_type (string_member v) = std_string"
| "member_type (blob_member v) = std_vector uint8_t"
| "member_type (values_member v) = std_vector argument_ptr"
| "member_type (int32_vector v) = std_vector int32_t"
| "member_type (uint64_vector v) = std_vector uint64_t"
| "member_type (double_vector v) = std_vector double"
| "member_type (string_vector v) = std_vector std_string"
| "member_type (struct_vector v) = std_vector argument_struct_ptr"

fun get_value_internal :: "argument \<Rightarrow> member" where
  "get_value_internal (int32_arg n val) = int32_member val"
| "get_value_internal (uint64_arg n val) = uint64_member val"
| "get_value_internal (float64_arg n val) = double_member val"
| "get_value_internal (string_arg n val) = string_member val"
| "get_value_internal (blob_arg n m_blob) = blob_member m_blob"
| "get_value_internal (struct_arg st) = values_member (struct_values st)"
| "get_value_internal (array_int32 n val) = int32_vector val"
| "get_value_internal (array_uint64 n val) = uint64_vector val"
| "get_value_internal (array_double n val) = double_vector val"
| "get_value_internal (array_string n val) = string_vector val"
| "get_value_internal (array_struct n val) = struct_vector val"

text \<open>
  \<^verbatim>\<open>*(TValue*)get_value_internal()\<close>: the address of the member, cast to a pointer to
  \<open>TValue\<close> and returned as a reference. The body compares nothing, throws nothing and
  asserts nothing, so the only outcome is \<open>Returns\<close>; the result has the type of an
  outcome so that a failure of the accessor can be stated at all.
\<close>

datatype reference = reinterpret cpp_type member

definition as :: "cpp_type \<Rightarrow> argument \<Rightarrow> reference res" where
  "as TValue a = Returns (reinterpret TValue (get_value_internal a))"

section \<open>\<^verbatim>\<open>argument_struct\<close>: \<^verbatim>\<open>field\<close> and \<^verbatim>\<open>release\<close>\<close>

text \<open>
  \<^verbatim>\<open>field\<close>: the loop stops at the first child with the name; \<^verbatim>\<open>arg\<close> stays null when
  there is none, and \<^verbatim>\<open>arg->as<T>()\<close> is then a call through the null pointer.
\<close>

definition field :: "cpp_type \<Rightarrow> string \<Rightarrow> argument_struct \<Rightarrow> reference res" where
  "field T name st =
     (case find (\<lambda>candidate. get_name candidate = name) (struct_values st) of
        None \<Rightarrow> Fails null_dereference
      | Some arg \<Rightarrow> as T arg)"

text \<open>
  \<^verbatim>\<open>std::remove_if\<close> as the standard library implements it: find the first element to
  remove; then move every later element that stays down to the next free place. It
  returns the vector and the index of the new logical end. The elements from that index
  on are what the moves left there; moving a pointer copies it.
\<close>

fun find_if :: "('a \<Rightarrow> bool) \<Rightarrow> 'a list \<Rightarrow> nat" where
  "find_if pred [] = 0"
| "find_if pred (x # xs) = (if pred x then 0 else Suc (find_if pred xs))"

function remove_if_loop :: "('a \<Rightarrow> bool) \<Rightarrow> 'a list \<Rightarrow> nat \<Rightarrow> nat \<Rightarrow> 'a list \<times> nat" where
  "remove_if_loop pred v first i =
     (if i < length v then
        (if \<not> pred (v ! i) then remove_if_loop pred (v[first := v ! i]) (Suc first) (Suc i)
         else remove_if_loop pred v first (Suc i))
      else (v, first))"
  by pat_completeness auto
termination
  by (relation "measure (\<lambda>(pred, v, first, i). length v - i)") auto

definition remove_if :: "('a \<Rightarrow> bool) \<Rightarrow> 'a list \<Rightarrow> 'a list \<times> nat" where
  "remove_if pred v =
     (let first = find_if pred v
      in if first \<noteq> length v then remove_if_loop pred v first (Suc first) else (v, first))"

text \<open>\<^verbatim>\<open>vector::erase(it)\<close> takes out the one element at \<open>it\<close>.\<close>

definition erase :: "nat \<Rightarrow> 'a list \<Rightarrow> 'a list" where
  "erase it v = take it v @ drop (Suc it) v"

text \<open>
  \<^verbatim>\<open>release(name)\<close> gives the pointer it returns (\<open>None\<close> for the null pointer) and the
  struct afterwards.
\<close>

definition release :: "string \<Rightarrow> argument_struct \<Rightarrow> argument option \<times> argument_struct" where
  "release name st =
     (case remove_if (\<lambda>arg. get_name arg = name) (struct_values st) of
        (v, it) \<Rightarrow>
          if it \<noteq> length v
          then (Some (v ! it), Argument_struct (struct_name st) (erase it v))
          else (None, Argument_struct (struct_name st) v))"

section \<open>\<^verbatim>\<open>struct_builder\<close>\<close>

record struct_builder =
  pending :: "argument list"

definition create :: struct_builder where
  "create = \<lparr>pending = []\<rparr>"

text \<open>\<^verbatim>\<open>add<TValue>(args...)\<close> appends a new object.\<close>

definition add_new :: "argument \<Rightarrow> struct_builder \<Rightarrow> struct_builder" where
  "add_new a b = b\<lparr>pending := pending b @ [a]\<rparr>"

text \<open>\<^verbatim>\<open>add(argument*)\<close> appends the object unless the pointer is null.\<close>

definition add :: "argument option \<Rightarrow> struct_builder \<Rightarrow> struct_builder" where
  "add in_argument b =
     (case in_argument of None \<Rightarrow> b | Some a \<Rightarrow> b\<lparr>pending := pending b @ [a]\<rparr>)"

text \<open>
  \<^verbatim>\<open>get(name)\<close> moves the vector into the constructor of the struct; a vector that was
  moved from by move construction is empty.
\<close>

definition get :: "string \<Rightarrow> struct_builder \<Rightarrow> argument_struct \<times> struct_builder" where
  "get name b = (Argument_struct name (pending b), b\<lparr>pending := []\<rparr>)"

text \<open>The destructor: \<^verbatim>\<open>assert(values.empty())\<close>.\<close>

definition destroy :: "struct_builder \<Rightarrow> unit res" where
  "destroy b = (if pending b = [] then Returns () else Fails assertion_failed)"

section \<open>What a write appends\<close>

text \<open>
  The bytes a string, and the payload of a value, add to an empty stream. They name the
  parts of an encoding in the statements below.
\<close>

definition string_bytes :: "string \<Rightarrow> byte list" where
  "string_bytes val = stream_impl (write_string val mock_stream_default)"

definition payload :: "argument \<Rightarrow> byte list" where
  "payload a = stream_impl (write_value a mock_stream_default)"

section \<open>Bytes and streams\<close>
lemma length_object_bytes: "length (object_bytes (w :: 'a::len word)) = LENGTH('a) div 8"
  by (simp add: object_bytes_def)

lemma from_object_bytes_object_bytes:
  fixes w :: "'a::len word"
  assumes "8 dvd LENGTH('a)"
  shows "from_object_bytes (object_bytes w) = w"
proof (rule bit_word_eqI)
  fix n assume n: "n < LENGTH('a)"
  from assms n have d: "n div 8 < LENGTH('a) div 8"
    by (auto simp: dvd_def)
  have "bit (from_object_bytes (object_bytes w) :: 'a word) n
      \<longleftrightarrow> bit (horner_sum uint (2 ^ LENGTH(8)) (object_bytes w)) n"
    using n by (simp add: from_object_bytes_def word_rcat_def bit_word_of_int_iff)
  also have "\<dots> \<longleftrightarrow> bit (object_bytes w ! (n div 8)) (n mod 8)"
    using d by (simp only: bit_horner_sum_uint_exp_iff length_object_bytes) simp
  also have "\<dots> \<longleftrightarrow> bit w n"
    using d by (simp add: object_bytes_def bit_ucast_iff bit_drop_bit_eq)
  finally show "bit (from_object_bytes (object_bytes w) :: 'a word) n \<longleftrightarrow> bit w n" .
qed

lemma char_of_byte_of_char: "char_of_byte (byte_of_char c) = c"
  by (simp add: char_of_byte_def byte_of_char_def unat_of_nat)

lemma write_raw_good:
  "write_raw data \<lparr>stream_impl = bs, failbit = False\<rparr>
     = \<lparr>stream_impl = bs @ data, failbit = False\<rparr>"
  by (simp add: write_raw_def)

lemma read_raw_good:
  "read_raw (length data) \<lparr>stream_impl = data @ rest, failbit = False\<rparr>
     = (data, \<lparr>stream_impl = rest, failbit = False\<rparr>)"
  by (simp add: read_raw_def)

lemma write_val_good:
  "write_val w \<lparr>stream_impl = bs, failbit = False\<rparr>
     = \<lparr>stream_impl = bs @ object_bytes w, failbit = False\<rparr>"
  by (simp add: write_val_def write_raw_good)

lemma read_val_good:
  fixes w :: "'a::len word"
  assumes "8 dvd LENGTH('a)"
  shows "read_val \<lparr>stream_impl = object_bytes w @ rest, failbit = False\<rparr>
     = Returns (w, \<lparr>stream_impl = rest, failbit = False\<rparr>)"
proof -
  have "read_raw (LENGTH('a) div 8) \<lparr>stream_impl = object_bytes w @ rest, failbit = False\<rparr>
      = (object_bytes w, \<lparr>stream_impl = rest, failbit = False\<rparr>)"
    using read_raw_good [of "object_bytes w" rest] by (simp add: length_object_bytes)
  then show ?thesis
    by (simp add: read_val_def length_object_bytes from_object_bytes_object_bytes [OF assms])
qed


lemma string_bytes_eq:
  "string_bytes val = object_bytes (ucast (vector_size val) :: 16 word) @ map byte_of_char val"
  by (simp add: string_bytes_def write_string_def mock_stream_default_def write_val_good write_raw_good)

lemma write_string_good:
  "write_string val \<lparr>stream_impl = bs, failbit = False\<rparr>
     = \<lparr>stream_impl = bs @ string_bytes val, failbit = False\<rparr>"
  by (simp add: write_string_def write_val_good write_raw_good string_bytes_eq)

lemma string_size_16:
  "length val < 65536 \<Longrightarrow> unat (ucast (vector_size val) :: 16 word) = length val"
  by (simp add: vector_size_def unsigned_of_nat unat_of_nat take_bit_nat_eq_self)

lemma read_string_good:
  assumes "length val < 65536"
  shows "read_string [] \<lparr>stream_impl = string_bytes val @ rest, failbit = False\<rparr>
     = Returns (val, \<lparr>stream_impl = rest, failbit = False\<rparr>)"
proof -
  let ?size = "ucast (vector_size val) :: 16 word"
  have u: "unat ?size = length val" using assms by (rule string_size_16)
  have rv: "read_val \<lparr>stream_impl = object_bytes ?size @ (map byte_of_char val @ rest), failbit = False\<rparr>
      = Returns (?size, \<lparr>stream_impl = map byte_of_char val @ rest, failbit = False\<rparr>)"
    by (rule read_val_good) simp
  show ?thesis
  proof (cases "val = []")
    case True
    then have "?size = 0" by (simp add: vector_size_def)
    with rv True show ?thesis
      by (simp add: read_string_def string_bytes_eq res_bind_def)
  next
    case False
    then have "0 < unat ?size" using u by simp
    then have pos: "0 < ?size" by (simp add: word_less_nat_alt)
    have rr: "read_raw (unat ?size) \<lparr>stream_impl = map byte_of_char val @ rest, failbit = False\<rparr>
      = (map byte_of_char val, \<lparr>stream_impl = rest, failbit = False\<rparr>)"
      using read_raw_good [of "map byte_of_char val" rest] u by simp
    show ?thesis
      using rv pos rr u
      by (simp add: read_string_def string_bytes_eq res_bind_def resize_def
          char_of_byte_of_char comp_def)
  qed
qed

lemma vector_size_64:
  "length val < 18446744073709551616 \<Longrightarrow> unat (vector_size val) = length val"
  by (simp add: vector_size_def unat_of_nat)

lemma fold_write_good:
  assumes "\<And>x bs. wr x \<lparr>stream_impl = bs, failbit = False\<rparr>
             = \<lparr>stream_impl = bs @ enc x, failbit = False\<rparr>"
  shows "fold wr xs \<lparr>stream_impl = bs, failbit = False\<rparr>
     = \<lparr>stream_impl = bs @ concat (map enc xs), failbit = False\<rparr>"
  by (induction xs arbitrary: bs) (simp_all add: assms)

lemma read_loop_good:
  assumes "\<And>x rest. x \<in> set xs \<Longrightarrow> rd \<lparr>stream_impl = enc x @ rest, failbit = False\<rparr>
             = Returns (x, \<lparr>stream_impl = rest, failbit = False\<rparr>)"
  shows "read_loop rd (length xs) val \<lparr>stream_impl = concat (map enc xs) @ rest, failbit = False\<rparr>
     = Returns (val @ xs, \<lparr>stream_impl = rest, failbit = False\<rparr>)"
  using assms by (induction xs arbitrary: val) (simp_all add: res_bind_def)

lemma underlying_simps:
  "underlying int32 = 0" "underlying uint64 = 1" "underlying float64 = 2"
  "underlying string = 3" "underlying array = 4" "underlying struct_value = 5"
  "underlying file_tag = 6" "underlying blob = 7" "underlying count = 8"
  by (simp_all add: underlying_def enumerators_def)

lemma object_bytes_byte: "object_bytes (b :: byte) = [b]"
  by (simp add: object_bytes_def)

lemma read_enum_good:
  "read_enum \<lparr>stream_impl = b # rest, failbit = False\<rparr>
     = Returns (b, \<lparr>stream_impl = rest, failbit = False\<rparr>)"
  using read_val_good [of b rest] by (simp add: read_enum_def object_bytes_byte)

lemma write_enum_good:
  "write_enum t \<lparr>stream_impl = bs, failbit = False\<rparr>
     = \<lparr>stream_impl = bs @ [underlying t], failbit = False\<rparr>"
  by (simp add: write_enum_def write_val_good object_bytes_byte)

lemma map_of_factory_impl:
  "map_of factory_impl 0 = Some (\<lambda>s. Returns (Some (int32_arg [] 0), s))"
  "map_of factory_impl 1 = Some (\<lambda>s. Returns (Some (uint64_arg [] 0), s))"
  "map_of factory_impl 2 = Some (\<lambda>s. Returns (Some (float64_arg [] 0), s))"
  "map_of factory_impl 3 = Some (\<lambda>s. Returns (Some (string_arg [] []), s))"
  "map_of factory_impl 4 = Some array_factory"
  "map_of factory_impl 5 = Some (\<lambda>s. Returns (Some (struct_arg argument_struct_default), s))"
  "map_of factory_impl 7 = Some (\<lambda>s. Returns (Some (blob_arg [] []), s))"
  by (simp_all add: factory_impl_def register_type_def underlying_simps)

lemma read_val_last:
  fixes w :: "'a::len word"
  assumes "8 dvd LENGTH('a)"
  shows "read_val \<lparr>stream_impl = object_bytes w, failbit = False\<rparr>
     = Returns (w, \<lparr>stream_impl = [], failbit = False\<rparr>)"
  using read_val_good [OF assms, of w "[]"] by simp

lemma read_string_last:
  assumes "length val < 65536"
  shows "read_string [] \<lparr>stream_impl = string_bytes val, failbit = False\<rparr>
     = Returns (val, \<lparr>stream_impl = [], failbit = False\<rparr>)"
  using read_string_good [OF assms, of "[]"] by simp

lemma read_loop_last:
  assumes "\<And>x rest. x \<in> set xs \<Longrightarrow> rd \<lparr>stream_impl = enc x @ rest, failbit = False\<rparr>
             = Returns (x, \<lparr>stream_impl = rest, failbit = False\<rparr>)"
  shows "read_loop rd (length xs) val \<lparr>stream_impl = concat (map enc xs), failbit = False\<rparr>
     = Returns (val @ xs, \<lparr>stream_impl = [], failbit = False\<rparr>)"
  using read_loop_good [of xs rd enc val "[]"] assms by simp

lemma fold_appends:
  assumes "\<And>x. x \<in> set xs \<Longrightarrow> \<exists>X. \<forall>bs. wr x \<lparr>stream_impl = bs, failbit = False\<rparr>
             = \<lparr>stream_impl = bs @ X, failbit = False\<rparr>"
  shows "\<exists>X. \<forall>bs. fold wr xs \<lparr>stream_impl = bs, failbit = False\<rparr>
             = \<lparr>stream_impl = bs @ X, failbit = False\<rparr>"
  using assms
proof (induction xs)
  case Nil
  show ?case by (rule exI [of _ "[]"]) simp
next
  case (Cons x xs)
  from Cons.prems [of x] obtain X where
    X: "\<And>bs. wr x \<lparr>stream_impl = bs, failbit = False\<rparr> = \<lparr>stream_impl = bs @ X, failbit = False\<rparr>"
    by auto
  from Cons.IH Cons.prems obtain Y where
    Y: "\<And>bs. fold wr xs \<lparr>stream_impl = bs, failbit = False\<rparr> = \<lparr>stream_impl = bs @ Y, failbit = False\<rparr>"
    by auto
  show ?case by (rule exI [of _ "X @ Y"]) (simp add: X Y)
qed

lemma write_argument_appends_if:
  assumes "\<And>bs. write_value a \<lparr>stream_impl = bs, failbit = False\<rparr>
             = \<lparr>stream_impl = bs @ X, failbit = False\<rparr>"
  shows "\<exists>Y. \<forall>bs. write_argument a \<lparr>stream_impl = bs, failbit = False\<rparr>
             = \<lparr>stream_impl = bs @ Y, failbit = False\<rparr>"
proof (cases "array_value_type a")
  case None
  show ?thesis
    by (rule exI [of _ "[underlying (get_type a)] @ string_bytes (get_name a) @ X"])
      (simp add: None write_enum_good write_string_good assms)
next
  case (Some t)
  show ?thesis
    by (rule exI [of _ "[underlying (get_type a), underlying t] @ string_bytes (get_name a) @ X"])
      (simp add: Some write_enum_good write_string_good assms)
qed

lemma write_value_appends_ex:
  "\<exists>X. \<forall>bs. write_value a \<lparr>stream_impl = bs, failbit = False\<rparr>
             = \<lparr>stream_impl = bs @ X, failbit = False\<rparr>"
  and write_values_appends_ex:
  "\<exists>X. \<forall>bs. write_values st \<lparr>stream_impl = bs, failbit = False\<rparr>
             = \<lparr>stream_impl = bs @ X, failbit = False\<rparr>"
proof (induction a and st)
  case (int32_arg n v)
  show ?case by (rule exI [of _ "object_bytes v"]) (simp add: write_val_good)
next
  case (uint64_arg n v)
  show ?case by (rule exI [of _ "object_bytes v"]) (simp add: write_val_good)
next
  case (float64_arg n v)
  show ?case by (rule exI [of _ "object_bytes v"]) (simp add: write_val_good)
next
  case (string_arg n v)
  show ?case by (rule exI [of _ "string_bytes v"]) (simp add: write_string_good)
next
  case (blob_arg n v)
  show ?case
    by (rule exI [of _ "object_bytes (ucast (vector_size v) :: 32 word) @ v"])
      (simp add: write_val_good write_raw_good)
next
  case (struct_arg st)
  then show ?case by simp
next
  case (array_int32 n v)
  show ?case
    by (rule exI [of _ "object_bytes (vector_size v) @ concat (map object_bytes v)"])
      (simp add: write_val_good fold_write_good [where enc = object_bytes])
next
  case (array_uint64 n v)
  show ?case
    by (rule exI [of _ "object_bytes (vector_size v) @ concat (map object_bytes v)"])
      (simp add: write_val_good fold_write_good [where enc = object_bytes])
next
  case (array_double n v)
  show ?case
    by (rule exI [of _ "object_bytes (vector_size v) @ concat (map object_bytes v)"])
      (simp add: write_val_good fold_write_good [where enc = object_bytes])
next
  case (array_string n v)
  show ?case
    by (rule exI [of _ "object_bytes (vector_size v) @ concat (map string_bytes v)"])
      (simp add: write_val_good write_string_good fold_write_good [where enc = string_bytes])
next
  case (array_struct n v)
  from fold_appends [of v write_values] array_struct obtain X where
    X: "\<And>bs. fold write_values v \<lparr>stream_impl = bs, failbit = False\<rparr>
           = \<lparr>stream_impl = bs @ X, failbit = False\<rparr>"
    by auto
  show ?case
    by (rule exI [of _ "object_bytes (vector_size v) @ X"]) (simp add: write_val_good X)
next
  case (Argument_struct n vs)
  have "\<exists>Y. \<forall>bs. write_argument x \<lparr>stream_impl = bs, failbit = False\<rparr>
             = \<lparr>stream_impl = bs @ Y, failbit = False\<rparr>" if "x \<in> set vs" for x
  proof -
    from Argument_struct [OF that] obtain X where
      "\<And>bs. write_value x \<lparr>stream_impl = bs, failbit = False\<rparr>
             = \<lparr>stream_impl = bs @ X, failbit = False\<rparr>"
      by auto
    then show ?thesis by (rule write_argument_appends_if)
  qed
  from fold_appends [of vs write_argument, OF this] obtain X where
    X: "\<And>bs. fold write_argument vs \<lparr>stream_impl = bs, failbit = False\<rparr>
           = \<lparr>stream_impl = bs @ X, failbit = False\<rparr>"
    by auto
  show ?case
    by (rule exI [of _ "object_bytes (vector_size vs) @ X"]) (simp add: write_val_good X)
qed


lemma write_value_appends:
  "write_value a \<lparr>stream_impl = bs, failbit = False\<rparr>
     = \<lparr>stream_impl = bs @ payload a, failbit = False\<rparr>"
proof -
  from write_value_appends_ex [of a] obtain X where
    X: "\<And>bs. write_value a \<lparr>stream_impl = bs, failbit = False\<rparr>
           = \<lparr>stream_impl = bs @ X, failbit = False\<rparr>"
    by auto
  have "payload a = X"
    using X [of "[]"] by (simp add: payload_def mock_stream_default_def)
  with X show ?thesis by simp
qed

lemma write_argument_appends:
  "write_argument a \<lparr>stream_impl = bs, failbit = False\<rparr>
     = \<lparr>stream_impl = bs @ (case array_value_type a of
                                None \<Rightarrow> [underlying (get_type a)]
                              | Some t \<Rightarrow> [underlying (get_type a), underlying t])
                         @ string_bytes (get_name a) @ payload a,
        failbit = False\<rparr>"
  by (cases "array_value_type a")
    (simp_all add: write_enum_good write_string_good write_value_appends)

lemma serialize_array:
  "serialize (Suc fuel) \<lparr>stream_impl = underlying array # sub_type # rest, failbit = False\<rparr>
     = res_bind (array_factory \<lparr>stream_impl = sub_type # rest, failbit = False\<rparr>)
         (\<lambda>(new_argument, s2).
            case new_argument of
              None \<Rightarrow> Fails assertion_failed
            | Some a \<Rightarrow> read (serialize fuel) a s2)"
  by (simp add: read_enum_good map_of_factory_impl res_bind_def underlying_simps)

lemma payload_simps:
  "payload (int32_arg n i) = object_bytes i"
  "payload (uint64_arg n u) = object_bytes u"
  "payload (float64_arg n d) = object_bytes d"
  "payload (string_arg n str) = string_bytes str"
  "payload (array_int32 n ws) = object_bytes (vector_size ws) @ concat (map object_bytes ws)"
  "payload (array_uint64 n us) = object_bytes (vector_size us) @ concat (map object_bytes us)"
  "payload (array_double n ds) = object_bytes (vector_size ds) @ concat (map object_bytes ds)"
  "payload (array_string n strs) = object_bytes (vector_size strs) @ concat (map string_bytes strs)"
  by (simp_all add: payload_def mock_stream_default_def write_val_good write_string_good
      fold_write_good [where enc = object_bytes] fold_write_good [where enc = string_bytes])

lemma string_size_wraps:
  "length val = 65536 \<Longrightarrow> (ucast (vector_size val) :: 16 word) = 0"
  by (simp add: vector_size_def unsigned_of_nat)

lemma object_bytes_zero_16: "object_bytes (0 :: 16 word) = [0, 0]"
  by (simp add: object_bytes_def upt_rec)

lemma read_string_zero:
  "read_string val \<lparr>stream_impl = 0 # 0 # rest, failbit = False\<rparr>
     = Returns (val, \<lparr>stream_impl = rest, failbit = False\<rparr>)"
  using read_val_good [of "0 :: 16 word" rest]
  by (simp add: read_string_def res_bind_def object_bytes_zero_16)

lemma string_bytes_65536:
  "string_bytes (replicate 65536 c) = 0 # 0 # replicate 65536 (byte_of_char c)"
  by (simp add: string_bytes_eq string_size_wraps object_bytes_zero_16)

lemma serialize_scalar:
  assumes "length n < 65536"
  shows "serialize (Suc fuel) \<lparr>stream_impl = 0 # string_bytes n @ rest, failbit = False\<rparr>
           = read_value (serialize fuel) (int32_arg n 0) \<lparr>stream_impl = rest, failbit = False\<rparr>"
    and "serialize (Suc fuel) \<lparr>stream_impl = 1 # string_bytes n @ rest, failbit = False\<rparr>
           = read_value (serialize fuel) (uint64_arg n 0) \<lparr>stream_impl = rest, failbit = False\<rparr>"
    and "serialize (Suc fuel) \<lparr>stream_impl = 2 # string_bytes n @ rest, failbit = False\<rparr>
           = read_value (serialize fuel) (float64_arg n 0) \<lparr>stream_impl = rest, failbit = False\<rparr>"
    and "serialize (Suc fuel) \<lparr>stream_impl = 3 # string_bytes n @ rest, failbit = False\<rparr>
           = read_value (serialize fuel) (string_arg n []) \<lparr>stream_impl = rest, failbit = False\<rparr>"
  using assms
  by (simp_all add: read_enum_good map_of_factory_impl res_bind_def read_def read_string_good)

lemma serialize_scalar_array:
  assumes "length n < 65536"
  shows "serialize (Suc fuel) \<lparr>stream_impl = 4 # 0 # string_bytes n @ rest, failbit = False\<rparr>
           = read_value (serialize fuel) (array_int32 n []) \<lparr>stream_impl = rest, failbit = False\<rparr>"
    and "serialize (Suc fuel) \<lparr>stream_impl = 4 # 1 # string_bytes n @ rest, failbit = False\<rparr>
           = read_value (serialize fuel) (array_uint64 n []) \<lparr>stream_impl = rest, failbit = False\<rparr>"
    and "serialize (Suc fuel) \<lparr>stream_impl = 4 # 2 # string_bytes n @ rest, failbit = False\<rparr>
           = read_value (serialize fuel) (array_double n []) \<lparr>stream_impl = rest, failbit = False\<rparr>"
    and "serialize (Suc fuel) \<lparr>stream_impl = 4 # 3 # string_bytes n @ rest, failbit = False\<rparr>
           = read_value (serialize fuel) (array_string n []) \<lparr>stream_impl = rest, failbit = False\<rparr>"
  using assms
  by (simp_all add: read_enum_good map_of_factory_impl res_bind_def read_def read_string_good
      array_factory_def underlying_simps)

lemma read_array_int32:
  assumes "length ws < 18446744073709551616"
  shows "read_value dec (array_int32 n [])
           \<lparr>stream_impl = payload (array_int32 n ws), failbit = False\<rparr>
         = Returns (array_int32 n ws, \<lparr>stream_impl = [], failbit = False\<rparr>)"
proof -
  have "read_loop read_val (length ws) []
          \<lparr>stream_impl = concat (map object_bytes ws), failbit = False\<rparr>
      = Returns ([] @ ws, \<lparr>stream_impl = [], failbit = False\<rparr>)"
    by (rule read_loop_last) (simp add: read_val_good)
  then show ?thesis
    by (simp add: payload_simps read_val_good res_bind_def vector_size_64 [OF assms])
qed

lemma read_array_uint64:
  assumes "length us < 18446744073709551616"
  shows "read_value dec (array_uint64 n [])
           \<lparr>stream_impl = payload (array_uint64 n us), failbit = False\<rparr>
         = Returns (array_uint64 n us, \<lparr>stream_impl = [], failbit = False\<rparr>)"
proof -
  have "read_loop read_val (length us) []
          \<lparr>stream_impl = concat (map object_bytes us), failbit = False\<rparr>
      = Returns ([] @ us, \<lparr>stream_impl = [], failbit = False\<rparr>)"
    by (rule read_loop_last) (simp add: read_val_good)
  then show ?thesis
    by (simp add: payload_simps read_val_good res_bind_def vector_size_64 [OF assms])
qed

lemma read_array_double:
  assumes "length ds < 18446744073709551616"
  shows "read_value dec (array_double n [])
           \<lparr>stream_impl = payload (array_double n ds), failbit = False\<rparr>
         = Returns (array_double n ds, \<lparr>stream_impl = [], failbit = False\<rparr>)"
proof -
  have "read_loop read_val (length ds) []
          \<lparr>stream_impl = concat (map object_bytes ds), failbit = False\<rparr>
      = Returns ([] @ ds, \<lparr>stream_impl = [], failbit = False\<rparr>)"
    by (rule read_loop_last) (simp add: read_val_good)
  then show ?thesis
    by (simp add: payload_simps read_val_good res_bind_def vector_size_64 [OF assms])
qed

lemma read_array_string:
  assumes "length strs < 18446744073709551616" and "\<forall>x\<in>set strs. length x < 65536"
  shows "read_value dec (array_string n [])
           \<lparr>stream_impl = payload (array_string n strs), failbit = False\<rparr>
         = Returns (array_string n strs, \<lparr>stream_impl = [], failbit = False\<rparr>)"
proof -
  have "read_loop (read_string []) (length strs) []
          \<lparr>stream_impl = concat (map string_bytes strs), failbit = False\<rparr>
      = Returns ([] @ strs, \<lparr>stream_impl = [], failbit = False\<rparr>)"
    by (rule read_loop_last) (simp add: read_string_good assms(2))
  then show ?thesis
    by (simp add: payload_simps read_val_good res_bind_def vector_size_64 [OF assms(1)])
qed

section \<open>Round trip of the scalar classes\<close>

text \<open>
  Claim C1, amended. For every name of fewer than 65536 bytes and every value (a string
  value of fewer than 65536 bytes), writing an \<^verbatim>\<open>int32\<close>, \<^verbatim>\<open>uint64\<close>, \<^verbatim>\<open>float64\<close> or
  \<^verbatim>\<open>string\<close> argument to a new stream and decoding that stream with \<open>serialize\<close> returns
  an argument of the same class with the same name and the same value, and leaves the
  stream empty. Any positive fuel is enough. A \<^verbatim>\<open>double\<close> is compared by its bits.
\<close>

theorem scalar_round_trip:
  assumes "length n < 65536"
  shows "serialize (Suc fuel) (write_argument (int32_arg n i) mock_stream_default)
           = Returns (int32_arg n i, mock_stream_default)
       \<and> serialize (Suc fuel) (write_argument (uint64_arg n u) mock_stream_default)
           = Returns (uint64_arg n u, mock_stream_default)
       \<and> serialize (Suc fuel) (write_argument (float64_arg n d) mock_stream_default)
           = Returns (float64_arg n d, mock_stream_default)
       \<and> (length str < 65536 \<longrightarrow>
            serialize (Suc fuel) (write_argument (string_arg n str) mock_stream_default)
              = Returns (string_arg n str, mock_stream_default))"
proof -
  have "serialize (Suc fuel) (write_argument (int32_arg n i) mock_stream_default)
           = Returns (int32_arg n i, mock_stream_default)"
    by (simp add: mock_stream_default_def write_argument_appends payload_simps underlying_simps
        serialize_scalar [OF assms] res_bind_def read_val_last
        del: write_argument.simps serialize.simps)
  moreover have "serialize (Suc fuel) (write_argument (uint64_arg n u) mock_stream_default)
           = Returns (uint64_arg n u, mock_stream_default)"
    by (simp add: mock_stream_default_def write_argument_appends payload_simps underlying_simps
        serialize_scalar [OF assms] res_bind_def read_val_last
        del: write_argument.simps serialize.simps)
  moreover have "serialize (Suc fuel) (write_argument (float64_arg n d) mock_stream_default)
           = Returns (float64_arg n d, mock_stream_default)"
    by (simp add: mock_stream_default_def write_argument_appends payload_simps underlying_simps
        serialize_scalar [OF assms] res_bind_def read_val_last
        del: write_argument.simps serialize.simps)
  moreover have "serialize (Suc fuel) (write_argument (string_arg n str) mock_stream_default)
           = Returns (string_arg n str, mock_stream_default)" if "length str < 65536"
    using that
    by (simp add: mock_stream_default_def write_argument_appends payload_simps underlying_simps
        serialize_scalar [OF assms] res_bind_def read_string_last
        del: write_argument.simps serialize.simps)
  ultimately show ?thesis by blast
qed

text \<open>
  The values of the test \<^verbatim>\<open>PrimitiveTypes\<close>; the 64-bit pattern is that of 555.0.
\<close>

theorem scalar_round_trip_witness:
  "length ''Base'' < 65536
   \<and> serialize (Suc 0) (write_argument (int32_arg ''Base'' 555) mock_stream_default)
       = Returns (int32_arg ''Base'' 555, mock_stream_default)
   \<and> serialize (Suc 0) (write_argument (uint64_arg ''Base'' 10) mock_stream_default)
       = Returns (uint64_arg ''Base'' 10, mock_stream_default)
   \<and> serialize (Suc 0) (write_argument (float64_arg ''Base'' 0x4081580000000000) mock_stream_default)
       = Returns (float64_arg ''Base'' 0x4081580000000000, mock_stream_default)
   \<and> length ''meme string'' < 65536
   \<and> serialize (Suc 0) (write_argument (string_arg ''Base'' ''meme string'') mock_stream_default)
       = Returns (string_arg ''Base'' ''meme string'', mock_stream_default)"
  using scalar_round_trip [of "''Base''" 0 555 10 "0x4081580000000000" "''meme string''"]
  by (simp del: write_argument.simps serialize.simps)

text \<open>
  Claim C1 as stated fails for a long string. The length prefix is the length cast to
  \<^verbatim>\<open>uint16_t\<close>: for 65536 bytes it is 0, the decoder reads an empty string, and the bytes
  of the string stay in the stream.
\<close>

theorem long_string_comes_back_empty:
  "serialize (Suc 0)
     (write_argument (string_arg ''s'' (replicate 65536 (CHR ''a''))) mock_stream_default)
   = Returns (string_arg ''s'' [], \<lparr>stream_impl = replicate 65536 97, failbit = False\<rparr>)"
proof -
  have w: "write_argument (string_arg ''s'' (replicate 65536 (CHR ''a''))) mock_stream_default
      = \<lparr>stream_impl = 3 # string_bytes ''s'' @ 0 # 0 # replicate 65536 97, failbit = False\<rparr>"
    by (simp add: mock_stream_default_def write_argument_appends payload_simps
        string_bytes_65536 underlying_simps byte_of_char_def del: write_argument.simps)
  have n: "read_string [] \<lparr>stream_impl = string_bytes ''s'' @ 0 # 0 # replicate 65536 97, failbit = False\<rparr>
      = Returns (''s'', \<lparr>stream_impl = 0 # 0 # replicate 65536 97, failbit = False\<rparr>)"
    by (rule read_string_good) simp
  show ?thesis
    unfolding w
    by (simp add: read_enum_good map_of_factory_impl res_bind_def read_def n read_string_zero)
qed

section \<open>Round trip of the arrays\<close>

text \<open>
  Claim C7, amended. For the element types \<^verbatim>\<open>int32_t\<close>, \<^verbatim>\<open>uint64_t\<close>, \<^verbatim>\<open>double\<close> and
  \<^verbatim>\<open>std::string\<close>, a name of fewer than 65536 bytes and a sequence of fewer than \<open>2 ^ 64\<close>
  elements (string elements of fewer than 65536 bytes each), writing the array to a new
  stream and decoding it returns the array with the same name and the same elements in
  the same order. The statement is silent on arrays of structs.
\<close>

theorem array_round_trip:
  assumes "length n < 65536"
  shows "(length ws < 2 ^ 64 \<longrightarrow>
            serialize (Suc fuel) (write_argument (array_int32 n ws) mock_stream_default)
              = Returns (array_int32 n ws, mock_stream_default))
       \<and> (length us < 2 ^ 64 \<longrightarrow>
            serialize (Suc fuel) (write_argument (array_uint64 n us) mock_stream_default)
              = Returns (array_uint64 n us, mock_stream_default))
       \<and> (length ds < 2 ^ 64 \<longrightarrow>
            serialize (Suc fuel) (write_argument (array_double n ds) mock_stream_default)
              = Returns (array_double n ds, mock_stream_default))
       \<and> (length strs < 2 ^ 64 \<and> (\<forall>x\<in>set strs. length x < 65536) \<longrightarrow>
            serialize (Suc fuel) (write_argument (array_string n strs) mock_stream_default)
              = Returns (array_string n strs, mock_stream_default))"
proof -
  have "serialize (Suc fuel) (write_argument (array_int32 n ws) mock_stream_default)
           = Returns (array_int32 n ws, mock_stream_default)" if "length ws < 2 ^ 64"
    using that
    by (simp add: mock_stream_default_def write_argument_appends underlying_simps
        serialize_scalar_array [OF assms] read_array_int32
        del: write_argument.simps serialize.simps read_value.simps)
  moreover have "serialize (Suc fuel) (write_argument (array_uint64 n us) mock_stream_default)
           = Returns (array_uint64 n us, mock_stream_default)" if "length us < 2 ^ 64"
    using that
    by (simp add: mock_stream_default_def write_argument_appends underlying_simps
        serialize_scalar_array [OF assms] read_array_uint64
        del: write_argument.simps serialize.simps read_value.simps)
  moreover have "serialize (Suc fuel) (write_argument (array_double n ds) mock_stream_default)
           = Returns (array_double n ds, mock_stream_default)" if "length ds < 2 ^ 64"
    using that
    by (simp add: mock_stream_default_def write_argument_appends underlying_simps
        serialize_scalar_array [OF assms] read_array_double
        del: write_argument.simps serialize.simps read_value.simps)
  moreover have "serialize (Suc fuel) (write_argument (array_string n strs) mock_stream_default)
           = Returns (array_string n strs, mock_stream_default)"
    if "length strs < 2 ^ 64" "\<forall>x\<in>set strs. length x < 65536"
    using that
    by (simp add: mock_stream_default_def write_argument_appends underlying_simps
        serialize_scalar_array [OF assms] read_array_string
        del: write_argument.simps serialize.simps read_value.simps)
  ultimately show ?thesis by blast
qed

text \<open>
  The array of the test \<^verbatim>\<open>Array_int\<close>, and one array of each other element type.
\<close>

theorem array_round_trip_witness:
  "length ''arr_arg'' < 65536
   \<and> length [13, 14, 88 :: 32 word] < 2 ^ 64
   \<and> serialize (Suc 0) (write_argument (array_int32 ''arr_arg'' [13, 14, 88]) mock_stream_default)
       = Returns (array_int32 ''arr_arg'' [13, 14, 88], mock_stream_default)
   \<and> length [7, 0 :: 64 word] < 2 ^ 64
   \<and> serialize (Suc 0) (write_argument (array_uint64 ''arr_arg'' [7, 0]) mock_stream_default)
       = Returns (array_uint64 ''arr_arg'' [7, 0], mock_stream_default)
   \<and> length [0x4081580000000000 :: 64 word] < 2 ^ 64
   \<and> serialize (Suc 0)
         (write_argument (array_double ''arr_arg'' [0x4081580000000000]) mock_stream_default)
       = Returns (array_double ''arr_arg'' [0x4081580000000000], mock_stream_default)
   \<and> length [''x'', [], ''hi''] < 2 ^ 64
   \<and> length ''x'' < 65536 \<and> length ''hi'' < 65536
   \<and> serialize (Suc 0)
         (write_argument (array_string ''arr_arg'' [''x'', [], ''hi'']) mock_stream_default)
       = Returns (array_string ''arr_arg'' [''x'', [], ''hi''], mock_stream_default)"
  using array_round_trip [of "''arr_arg''" "[13, 14, 88]" 0 "[7, 0]" "[0x4081580000000000]"
      "[''x'', [], ''hi'']"]
  by (simp del: write_argument.simps serialize.simps)

text \<open>
  Claim C7 as stated fails for a string element of 65536 bytes: it comes back as the
  empty string.
\<close>

theorem long_element_comes_back_empty:
  "serialize (Suc 0)
     (write_argument (array_string ''a'' [replicate 65536 (CHR ''b'')]) mock_stream_default)
   = Returns (array_string ''a'' [[]], \<lparr>stream_impl = replicate 65536 98, failbit = False\<rparr>)"
proof -
  have w: "write_argument (array_string ''a'' [replicate 65536 (CHR ''b'')]) mock_stream_default
      = \<lparr>stream_impl = 4 # 3 # string_bytes ''a'' @ object_bytes (1 :: size_t)
                           @ 0 # 0 # replicate 65536 98, failbit = False\<rparr>"
    by (simp add: mock_stream_default_def write_argument_appends payload_simps
        string_bytes_65536 underlying_simps byte_of_char_def vector_size_def
        del: write_argument.simps)
  have n: "read_string [] \<lparr>stream_impl = string_bytes ''a'' @ object_bytes (1 :: size_t)
                           @ 0 # 0 # replicate 65536 98, failbit = False\<rparr>
      = Returns (''a'', \<lparr>stream_impl = object_bytes (1 :: size_t)
                           @ 0 # 0 # replicate 65536 98, failbit = False\<rparr>)"
    by (rule read_string_good) simp
  show ?thesis
    unfolding w
    by (simp add: read_enum_good map_of_factory_impl res_bind_def read_def n read_string_zero
        array_factory_def underlying_simps read_val_good)
qed

section \<open>The wire layout of an array\<close>

text \<open>
  What holds of the claim below. Each of the four classes of arrays of numbers and
  strings adds, to a good stream, the tag \<open>array\<close>, then the tag of its element type,
  then its name, then its payload. In \<open>serialize\<close> the entry of the registry for
  \<open>array\<close> takes the next byte off the stream and picks the class by it; the name is
  then read from what follows that byte, and the payload after the name.
\<close>

lemma array_layout:
  "write_argument (array_int32 n ws) \<lparr>stream_impl = bs, failbit = False\<rparr>
     = \<lparr>stream_impl = bs @ [underlying array, underlying int32] @ string_bytes n
                          @ payload (array_int32 n ws), failbit = False\<rparr>"
  "write_argument (array_uint64 n us) \<lparr>stream_impl = bs, failbit = False\<rparr>
     = \<lparr>stream_impl = bs @ [underlying array, underlying uint64] @ string_bytes n
                          @ payload (array_uint64 n us), failbit = False\<rparr>"
  "write_argument (array_double n ds) \<lparr>stream_impl = bs, failbit = False\<rparr>
     = \<lparr>stream_impl = bs @ [underlying array, underlying float64] @ string_bytes n
                          @ payload (array_double n ds), failbit = False\<rparr>"
  "write_argument (array_string n strs) \<lparr>stream_impl = bs, failbit = False\<rparr>
     = \<lparr>stream_impl = bs @ [underlying array, underlying string] @ string_bytes n
                          @ payload (array_string n strs), failbit = False\<rparr>"
  by (simp_all add: write_argument_appends del: write_argument.simps)

lemma array_selected_by_element_tag:
  "serialize (Suc fuel)
     \<lparr>stream_impl = underlying array # underlying int32 # rest, failbit = False\<rparr>
   = res_bind (read_string [] \<lparr>stream_impl = rest, failbit = False\<rparr>)
       (\<lambda>(name, s1). read_value (serialize fuel) (array_int32 name []) s1)"
  "serialize (Suc fuel)
     \<lparr>stream_impl = underlying array # underlying float64 # rest, failbit = False\<rparr>
   = res_bind (read_string [] \<lparr>stream_impl = rest, failbit = False\<rparr>)
       (\<lambda>(name, s1). read_value (serialize fuel) (array_double name []) s1)"
  "serialize (Suc fuel)
     \<lparr>stream_impl = underlying array # underlying string # rest, failbit = False\<rparr>
   = res_bind (read_string [] \<lparr>stream_impl = rest, failbit = False\<rparr>)
       (\<lambda>(name, s1). read_value (serialize fuel) (array_string name []) s1)"
  "serialize (Suc fuel)
     \<lparr>stream_impl = underlying array # underlying uint64 # rest, failbit = False\<rparr>
   = res_bind (read_string [] \<lparr>stream_impl = rest, failbit = False\<rparr>)
       (\<lambda>(name, s1). read_value (serialize fuel) (array_uint64 name []) s1)"
  "serialize (Suc fuel)
     \<lparr>stream_impl = underlying array # underlying struct_value # rest, failbit = False\<rparr>
   = res_bind (read_string [] \<lparr>stream_impl = rest, failbit = False\<rparr>)
       (\<lambda>(name, s1). read_value (serialize fuel) (array_struct name []) s1)"
  by (simp_all only: serialize_array)
    (simp_all add: array_factory_def read_enum_good res_bind_def underlying_simps read_def
      del: read_value.simps)

text \<open>
  Claim C6: every array should write, after the tag \<open>array\<close>, the tag of its element
  type, by which the decoder picks the class of the array before it reads the name. An
  array of structs writes the tag \<open>count\<close> (8) there, not \<open>struct_value\<close> (5). The entry
  of the registry takes that byte off the stream, finds none of its five element tags
  in it and returns the null pointer: no array is picked, the name is not read, and the
  assertion in \<open>serialize\<close> fails. So it is for the empty array named \<open>arr\<close>, written
  to a new stream.
\<close>

theorem struct_array_writes_count_tag:
  "write_argument (array_struct n elements) \<lparr>stream_impl = bs, failbit = False\<rparr>
     = \<lparr>stream_impl = bs @ [underlying array, underlying count] @ string_bytes n
                          @ payload (array_struct n elements), failbit = False\<rparr>
   \<and> underlying count = 8 \<and> underlying struct_value = 5
   \<and> array_factory \<lparr>stream_impl = underlying count # rest, failbit = False\<rparr>
       = Returns (None, \<lparr>stream_impl = rest, failbit = False\<rparr>)
   \<and> serialize (Suc fuel)
         \<lparr>stream_impl = underlying array # underlying count # rest, failbit = False\<rparr>
       = Fails assertion_failed
   \<and> write_argument (array_struct ''arr'' []) mock_stream_default
       = \<lparr>stream_impl = [4, 8, 3, 0, 97, 114, 114, 0, 0, 0, 0, 0, 0, 0, 0], failbit = False\<rparr>
   \<and> serialize (Suc 0) (write_argument (array_struct ''arr'' []) mock_stream_default)
       = Fails assertion_failed"
proof -
  have w: "write_argument (array_struct n elements) \<lparr>stream_impl = bs, failbit = False\<rparr>
     = \<lparr>stream_impl = bs @ [underlying array, underlying count] @ string_bytes n
                          @ payload (array_struct n elements), failbit = False\<rparr>"
    by (simp add: write_argument_appends del: write_argument.simps)
  have f: "array_factory \<lparr>stream_impl = underlying count # rest, failbit = False\<rparr>
       = Returns (None, \<lparr>stream_impl = rest, failbit = False\<rparr>)"
    by (simp add: array_factory_def read_enum_good res_bind_def underlying_simps)
  have d: "serialize (Suc fuel)
         \<lparr>stream_impl = underlying array # underlying count # rest, failbit = False\<rparr>
       = Fails assertion_failed"
    by (simp only: serialize_array f) (simp add: res_bind_def)
  have c: "write_argument (array_struct ''arr'' []) mock_stream_default
       = \<lparr>stream_impl = [4, 8, 3, 0, 97, 114, 114, 0, 0, 0, 0, 0, 0, 0, 0], failbit = False\<rparr>"
    by code_simp
  have e: "serialize (Suc 0) (write_argument (array_struct ''arr'' []) mock_stream_default)
       = Fails assertion_failed"
    by code_simp
  from w f d c e show ?thesis
    by (simp add: underlying_simps del: write_argument.simps serialize.simps)
qed

section \<open>Tags that are not registered\<close>

lemma factory_impl_miss:
  assumes "t \<notin> underlying ` {int32, uint64, float64, string, array, struct_value, blob}"
  shows "map_of factory_impl t = None"
  using assms by (simp add: factory_impl_def register_type_def)

text \<open>
  Claim C2, amended. When the first byte of the stream is none of the seven registered
  tags, \<open>serialize\<close> constructs nothing and ends with the exception
  \<^verbatim>\<open>std::bad_function_call\<close>, thrown by the empty \<^verbatim>\<open>std::function\<close> that the lookup put
  into the registry. The caller gets that exception; the library has no error of its
  own for an unknown tag.
\<close>

theorem unregistered_tag_throws:
  assumes "t \<notin> underlying ` {int32, uint64, float64, string, array, struct_value, blob}"
  shows "serialize (Suc fuel) \<lparr>stream_impl = t # rest, failbit = False\<rparr>
           = Fails bad_function_call"
  by (simp add: read_enum_good res_bind_def factory_impl_miss [OF assms])

text \<open>
  The tag \<open>count\<close>, an enumerator that is not registered.
\<close>

theorem unregistered_tag_throws_witness:
  "underlying count \<notin> underlying ` {int32, uint64, float64, string, array, struct_value, blob}
   \<and> serialize (Suc 0) \<lparr>stream_impl = [underlying count, 1, 0, 97], failbit = False\<rparr>
       = Fails bad_function_call"
proof -
  have h: "underlying count
      \<notin> underlying ` {int32, uint64, float64, string, array, struct_value, blob}"
    by (simp add: underlying_simps)
  from h unregistered_tag_throws [OF h, of 0 "[1, 0, 97]"] show ?thesis
    by (simp del: serialize.simps)
qed

text \<open>
  Claim C2 as stated fails: for the byte 200, which names no enumerator, the outcome
  is the exception of the standard library, not a report of an unknown tag.
\<close>

theorem unnamed_tag_is_not_reported:
  "serialize (Suc 0) \<lparr>stream_impl = [200, 0, 0], failbit = False\<rparr> = Fails bad_function_call"
proof -
  have "map_of factory_impl (200 :: byte) = None"
    by (simp add: factory_impl_def register_type_def underlying_simps)
  then show ?thesis
    by (simp add: read_enum_good res_bind_def)
qed

text \<open>
  Claim C9. The enumerator \<^verbatim>\<open>file\<close> has the value 6, between \<open>struct_value\<close> (5) and
  \<open>blob\<close> (7). No class has it as its tag and the registry has no entry for it. A blob
  therefore begins with the byte 7, and a stream that begins with the byte 6 makes
  \<open>serialize\<close> call the empty function of a missing entry.
\<close>

theorem file_tag_not_registered:
  "underlying struct_value = 5 \<and> underlying file_tag = 6 \<and> underlying blob = 7
   \<and> get_type a \<noteq> file_tag
   \<and> array_value_type a \<noteq> Some file_tag
   \<and> map_of factory_impl (underlying file_tag) = None
   \<and> write_argument (blob_arg n m_blob) \<lparr>stream_impl = bs, failbit = False\<rparr>
       = \<lparr>stream_impl = bs @ 7 # string_bytes n @ payload (blob_arg n m_blob), failbit = False\<rparr>
   \<and> serialize (Suc fuel) \<lparr>stream_impl = 6 # rest, failbit = False\<rparr> = Fails bad_function_call"
proof -
  have "get_type a \<noteq> file_tag" by (cases a) simp_all
  moreover have "array_value_type a \<noteq> Some file_tag" by (cases a) simp_all
  moreover have none: "map_of factory_impl (6 :: byte) = None"
    by (simp add: factory_impl_def register_type_def underlying_simps)
  moreover have "serialize (Suc fuel) \<lparr>stream_impl = 6 # rest, failbit = False\<rparr>
      = Fails bad_function_call"
    by (simp add: read_enum_good res_bind_def none)
  ultimately show ?thesis
    by (simp add: underlying_simps write_argument_appends del: write_argument.simps serialize.simps)
qed

section \<open>Access by type\<close>

lemma decoded_scalar:
  assumes "length n < 65536"
  shows "serialize (Suc fuel) (write_argument (int32_arg n i) mock_stream_default)
           = Returns (int32_arg n i, mock_stream_default)"
    and "serialize (Suc fuel) (write_argument (uint64_arg n u) mock_stream_default)
           = Returns (uint64_arg n u, mock_stream_default)"
    and "serialize (Suc fuel) (write_argument (float64_arg n d) mock_stream_default)
           = Returns (float64_arg n d, mock_stream_default)"
  by (simp_all add: mock_stream_default_def write_argument_appends payload_simps underlying_simps
      serialize_scalar [OF assms] res_bind_def read_val_last
      del: write_argument.simps serialize.simps)

lemma decoded_string:
  assumes "length n < 65536" and "length str < 65536"
  shows "serialize (Suc fuel) (write_argument (string_arg n str) mock_stream_default)
           = Returns (string_arg n str, mock_stream_default)"
  using assms(2)
  by (simp add: mock_stream_default_def write_argument_appends payload_simps underlying_simps
      serialize_scalar [OF assms(1)] res_bind_def read_string_last
      del: write_argument.simps serialize.simps)

text \<open>
  Claim C3, amended. \<^verbatim>\<open>as<T>\<close> makes no check and reports no error: for every argument
  and every access type \<open>T\<close>, matching or not, it returns a reference of type \<open>T\<close> to the
  data member of the argument. The same holds for the argument that \<open>serialize\<close> gives
  back for a written scalar, where the caller does not hold the class: whatever \<open>T\<close> is
  asked for, the call returns a reference to the decoded payload.
\<close>

theorem as_returns_without_check:
  assumes "length n < 65536"
  shows "as T a = Returns (reinterpret T (get_value_internal a))
       \<and> res_bind (serialize (Suc fuel) (write_argument (int32_arg n i) mock_stream_default))
            (\<lambda>(decoded, s). as T decoded)
           = Returns (reinterpret T (int32_member i))
       \<and> res_bind (serialize (Suc fuel) (write_argument (uint64_arg n u) mock_stream_default))
            (\<lambda>(decoded, s). as T decoded)
           = Returns (reinterpret T (uint64_member u))
       \<and> res_bind (serialize (Suc fuel) (write_argument (float64_arg n d) mock_stream_default))
            (\<lambda>(decoded, s). as T decoded)
           = Returns (reinterpret T (double_member d))
       \<and> (length str < 65536 \<longrightarrow>
            res_bind (serialize (Suc fuel) (write_argument (string_arg n str) mock_stream_default))
              (\<lambda>(decoded, s). as T decoded)
             = Returns (reinterpret T (string_member str)))"
proof -
  have "as T a = Returns (reinterpret T (get_value_internal a))"
    by (simp add: as_def)
  moreover have "res_bind
      (serialize (Suc fuel) (write_argument (int32_arg n i) mock_stream_default))
      (\<lambda>(decoded, s). as T decoded) = Returns (reinterpret T (int32_member i))"
    by (simp only: decoded_scalar [OF assms]) (simp add: res_bind_def as_def)
  moreover have "res_bind
      (serialize (Suc fuel) (write_argument (uint64_arg n u) mock_stream_default))
      (\<lambda>(decoded, s). as T decoded) = Returns (reinterpret T (uint64_member u))"
    by (simp only: decoded_scalar [OF assms]) (simp add: res_bind_def as_def)
  moreover have "res_bind
      (serialize (Suc fuel) (write_argument (float64_arg n d) mock_stream_default))
      (\<lambda>(decoded, s). as T decoded) = Returns (reinterpret T (double_member d))"
    by (simp only: decoded_scalar [OF assms]) (simp add: res_bind_def as_def)
  moreover have "res_bind
      (serialize (Suc fuel) (write_argument (string_arg n str) mock_stream_default))
      (\<lambda>(decoded, s). as T decoded) = Returns (reinterpret T (string_member str))"
    if "length str < 65536"
    by (simp only: decoded_string [OF assms that]) (simp add: res_bind_def as_def)
  ultimately show ?thesis by blast
qed

text \<open>
  The values of the test \<^verbatim>\<open>PrimitiveTypes\<close>, each decoded and then asked for an
  \<^verbatim>\<open>int32_t\<close>: the right type for the first, the wrong one for the other three.
\<close>

theorem as_returns_without_check_witness:
  "length ''Base'' < 65536
   \<and> as int32_t (string_arg ''Base'' ''meme string'')
       = Returns (reinterpret int32_t (string_member ''meme string''))
   \<and> res_bind (serialize (Suc 0) (write_argument (int32_arg ''Base'' 555) mock_stream_default))
        (\<lambda>(decoded, s). as int32_t decoded)
       = Returns (reinterpret int32_t (int32_member 555))
   \<and> res_bind (serialize (Suc 0) (write_argument (uint64_arg ''Base'' 10) mock_stream_default))
        (\<lambda>(decoded, s). as int32_t decoded)
       = Returns (reinterpret int32_t (uint64_member 10))
   \<and> res_bind
        (serialize (Suc 0)
           (write_argument (float64_arg ''Base'' 0x4081580000000000) mock_stream_default))
        (\<lambda>(decoded, s). as int32_t decoded)
       = Returns (reinterpret int32_t (double_member 0x4081580000000000))
   \<and> length ''meme string'' < 65536
   \<and> res_bind
        (serialize (Suc 0)
           (write_argument (string_arg ''Base'' ''meme string'') mock_stream_default))
        (\<lambda>(decoded, s). as int32_t decoded)
       = Returns (reinterpret int32_t (string_member ''meme string''))"
  using as_returns_without_check [of "''Base''" int32_t "string_arg ''Base'' ''meme string''"
      0 555 10 "0x4081580000000000" "''meme string''"]
  by (simp del: write_argument.simps serialize.simps)

text \<open>
  Claim C3 as stated fails: a \<^verbatim>\<open>uint64\<close> argument asked for an \<^verbatim>\<open>int32_t\<close>, which is not
  the type of its member, does not fail. The call returns a reference of the type asked
  for to the 64-bit member.
\<close>

theorem mismatched_access_returns:
  "member_type (get_value_internal (uint64_arg ''x'' 10)) \<noteq> int32_t
   \<and> as int32_t (uint64_arg ''x'' 10) = Returns (reinterpret int32_t (uint64_member 10))"
  by (simp add: as_def)

section \<open>Fields of a struct\<close>

lemma find_first:
  assumes "\<forall>x\<in>set before. \<not> P x" and "P c"
  shows "find P (before @ c # after) = Some c"
  using assms by (induction before) simp_all

lemma find_none: "(\<forall>x\<in>set xs. \<not> P x) \<Longrightarrow> find P xs = None"
  by (induction xs) simp_all

text \<open>
  Claim C4, amended. When a child of the struct has the name, \<^verbatim>\<open>field<T>(name)\<close>
  returns the first such child in the order of insertion, viewed as \<open>T\<close> by \<open>as\<close>.
  When none has, it calls \<open>as\<close> through the null pointer; no error is reported.
\<close>

theorem field_first_match_or_null:
  "(struct_values st = before @ c # after \<and> (\<forall>x\<in>set before. get_name x \<noteq> name)
      \<and> get_name c = name
     \<longrightarrow> field T name st = as T c
         \<and> field T name st = Returns (reinterpret T (get_value_internal c)))
   \<and> ((\<forall>x\<in>set (struct_values st'). get_name x \<noteq> name')
     \<longrightarrow> field T' name' st' = Fails null_dereference)"
  by (simp add: field_def find_first find_none as_def)

text \<open>
  A struct with two children of the name asked for, and a struct with none.
\<close>

theorem field_first_match_or_null_witness:
  "struct_values (Argument_struct ''s'' [int32_arg ''a'' 1, int32_arg ''b'' 2, int32_arg ''b'' 3])
     = [int32_arg ''a'' 1] @ int32_arg ''b'' 2 # [int32_arg ''b'' 3]
   \<and> get_name (int32_arg ''a'' 1) \<noteq> ''b''
   \<and> get_name (int32_arg ''b'' 2) = ''b''
   \<and> field int32_t ''b''
         (Argument_struct ''s'' [int32_arg ''a'' 1, int32_arg ''b'' 2, int32_arg ''b'' 3])
       = as int32_t (int32_arg ''b'' 2)
   \<and> field int32_t ''b''
         (Argument_struct ''s'' [int32_arg ''a'' 1, int32_arg ''b'' 2, int32_arg ''b'' 3])
       = Returns (reinterpret int32_t (int32_member 2))
   \<and> struct_values (Argument_struct ''t'' [int32_arg ''a'' 1]) = [int32_arg ''a'' 1]
   \<and> get_name (int32_arg ''a'' 1) \<noteq> ''z''
   \<and> field int32_t ''z'' (Argument_struct ''t'' [int32_arg ''a'' 1]) = Fails null_dereference"
  using field_first_match_or_null [of
      "Argument_struct ''s'' [int32_arg ''a'' 1, int32_arg ''b'' 2, int32_arg ''b'' 3]"
      "[int32_arg ''a'' 1]" "int32_arg ''b'' 2" "[int32_arg ''b'' 3]" "''b''" int32_t
      "Argument_struct ''t'' [int32_arg ''a'' 1]" "''z''" int32_t]
  by (simp add: as_def)

text \<open>
  Claim C4 as stated fails: a lookup of a name that no child has is a call through the
  null pointer.
\<close>

theorem missing_field_is_null_call:
  "field int32_t ''b'' (Argument_struct ''s'' [int32_arg ''a'' 1]) = Fails null_dereference"
  by (simp add: field_def)

section \<open>Releasing a child\<close>

text \<open>
  What \<^verbatim>\<open>std::remove_if\<close> leaves behind: the elements that stay, in their order,
  followed by the old elements from that index on; and what \<open>release\<close> makes of it.
  With \<open>it\<close> the number of children of another name, \<open>release\<close> returns the child
  that stood at index \<open>it\<close> before the call and erases one element there.
\<close>

lemma find_if_le: "find_if pred v \<le> length v"
  by (induction v) simp_all

lemma find_if_prefix: "filter (\<lambda>x. \<not> pred x) (take (find_if pred v) v) = take (find_if pred v) v"
  by (induction v) simp_all

lemma find_if_hit: "find_if pred v < length v \<Longrightarrow> pred (v ! find_if pred v)"
  by (induction v) (simp_all split: if_splits)

lemma find_if_all: "find_if pred v = length v \<Longrightarrow> filter (\<lambda>x. \<not> pred x) v = v"
  by (induction v) (simp_all split: if_splits)

lemma remove_if_loop_result:
  assumes "length w = length v" "first \<le> i" "i \<le> length v"
    and "take first w = filter (\<lambda>x. \<not> pred x) (take i v)"
    and "drop first w = drop first v"
  shows "remove_if_loop pred w first i
     = (filter (\<lambda>x. \<not> pred x) v @ drop (length (filter (\<lambda>x. \<not> pred x) v)) v,
        length (filter (\<lambda>x. \<not> pred x) v))"
  using assms
proof (induction pred w first i rule: remove_if_loop.induct)
  case (1 pred w first i)
  show ?case
  proof (cases "i < length w")
    case False
    with 1 have i: "i = length v" by simp
    with "1.prems" have t: "take first w = filter (\<lambda>x. \<not> pred x) v" by simp
    have f: "first = length (filter (\<lambda>x. \<not> pred x) v)"
      using t "1.prems" by (metis i length_take min.absorb2)
    have "w = take first w @ drop first w" by simp
    also have "\<dots> = filter (\<lambda>x. \<not> pred x) v @ drop first v"
      using t "1.prems" by simp
    finally have "w = filter (\<lambda>x. \<not> pred x) v @ drop first v" .
    with f False show ?thesis
      by (subst remove_if_loop.simps) simp
  next
    case True
    then have iv: "i < length v" using "1.prems" by simp
    have wi: "w ! i = v ! i"
    proof -
      from "1.prems" have fi: "first \<le> i" by simp
      have a: "drop first w ! (i - first) = w ! i" using fi True by simp
      have b: "drop first v ! (i - first) = v ! i" using fi iv by simp
      from "1.prems" have "drop first w = drop first v" by simp
      with a b show ?thesis by simp
    qed
    show ?thesis
    proof (cases "pred (w ! i)")
      case p: True
      have "remove_if_loop pred w first (Suc i)
        = (filter (\<lambda>x. \<not> pred x) v @ drop (length (filter (\<lambda>x. \<not> pred x) v)) v,
        length (filter (\<lambda>x. \<not> pred x) v))"
        using True p "1.prems" iv wi
        by (intro "1.IH"(2)) (simp_all add: take_Suc_conv_app_nth)
      with True p show ?thesis
        by (subst remove_if_loop.simps) simp
    next
      case p: False
      have fl: "first < length w" using "1.prems" True by simp
      have "remove_if_loop pred (w[first := w ! i]) (Suc first) (Suc i)
        = (filter (\<lambda>x. \<not> pred x) v @ drop (length (filter (\<lambda>x. \<not> pred x) v)) v,
        length (filter (\<lambda>x. \<not> pred x) v))"
      proof (intro "1.IH"(1))
        show "take (Suc first) (w[first := w ! i]) = filter (\<lambda>x. \<not> pred x) (take (Suc i) v)"
          using "1.prems" p wi iv fl
          by (simp add: take_Suc_conv_app_nth)
        show "drop (Suc first) (w[first := w ! i]) = drop (Suc first) v"
          using "1.prems" by (metis drop_Suc drop_update_cancel lessI tl_drop)
      qed (use True p "1.prems" in simp_all)
      with True p show ?thesis
        by (subst remove_if_loop.simps) simp
    qed
  qed
qed

lemma remove_if_result:
  "remove_if pred v
     = (filter (\<lambda>x. \<not> pred x) v @ drop (length (filter (\<lambda>x. \<not> pred x) v)) v,
        length (filter (\<lambda>x. \<not> pred x) v))"
proof (cases "find_if pred v = length v")
  case True
  then show ?thesis
    by (simp add: remove_if_def find_if_all)
next
  case False
  then have lt: "find_if pred v < length v"
    using find_if_le [of pred v] by simp
  have "take (find_if pred v) v = filter (\<lambda>x. \<not> pred x) (take (Suc (find_if pred v)) v)"
    using lt find_if_hit [OF lt] find_if_prefix [of pred v]
    by (simp add: take_Suc_conv_app_nth)
  with lt have "remove_if_loop pred v (find_if pred v) (Suc (find_if pred v))
     = (filter (\<lambda>x. \<not> pred x) v @ drop (length (filter (\<lambda>x. \<not> pred x) v)) v,
        length (filter (\<lambda>x. \<not> pred x) v))"
    by (intro remove_if_loop_result) simp_all
  with False show ?thesis
    by (simp add: remove_if_def Let_def)
qed

lemma release_result:
  "release name (Argument_struct n vs) =
     (let kept = filter (\<lambda>arg. get_name arg \<noteq> name) vs; it = length kept
      in if it \<noteq> length vs
         then (Some (vs ! it), Argument_struct n (kept @ drop (Suc it) vs))
         else (None, Argument_struct n vs))"
proof -
  let ?kept = "filter (\<lambda>arg. get_name arg \<noteq> name) vs"
  have le: "length ?kept \<le> length vs" by simp
  have len: "length (?kept @ drop (length ?kept) vs) = length vs"
    using le by simp
  have full: "?kept = vs" if "length ?kept = length vs"
    using that by (metis filter_True filter_id_conv length_filter_less less_irrefl_nat)
  show ?thesis
  proof (cases "length ?kept = length vs")
    case True
    with full show ?thesis
      by (simp add: release_def remove_if_result Let_def)
  next
    case False
    then have lt: "length ?kept < length vs"
      by (metis le_neq_implies_less length_filter_le)
    have nth: "(?kept @ drop (length ?kept) vs) ! length ?kept = vs ! length ?kept"
      using lt by (simp add: nth_append)
    have er: "erase (length ?kept) (?kept @ drop (length ?kept) vs)
        = ?kept @ drop (Suc (length ?kept)) vs"
      by (simp add: erase_def)
    from False lt nth er show ?thesis
      by (simp add: release_def remove_if_result Let_def del: length_filter_le)
  qed
qed

text \<open>
  Claim C5: \<^verbatim>\<open>release(name)\<close> should take out the first child of that name and return
  it. On a struct with the children \<open>a\<close> and \<open>b\<close>, in this order, \<^verbatim>\<open>release("a")\<close> returns
  the child \<open>b\<close>, which also stays in the struct, and \<open>a\<close> is lost.
\<close>

theorem release_returns_last_child:
  "release ''a'' (Argument_struct ''s'' [int32_arg ''a'' 1, int32_arg ''b'' 2])
     = (Some (int32_arg ''b'' 2), Argument_struct ''s'' [int32_arg ''b'' 2])"
  by (simp add: release_def remove_if_def erase_def)

section \<open>Building a struct\<close>

text \<open>
  Claim C8. \<^verbatim>\<open>get(name)\<close> on a builder with any pending children gives a struct of
  that name with exactly those children, in their order, and leaves the builder with
  none: the assertion of its destructor holds, and a child added afterwards is the only
  one pending.
\<close>

theorem build_hands_over_pending:
  "fst (get name b) = Argument_struct name (pending b)
   \<and> struct_name (fst (get name b)) = name
   \<and> struct_values (fst (get name b)) = pending b
   \<and> pending (snd (get name b)) = []
   \<and> destroy (snd (get name b)) = Returns ()
   \<and> pending (add_new a (snd (get name b))) = [a]"
  by (simp add: get_def destroy_def add_new_def)

section \<open>Arrays of structs\<close>

text \<open>
  The decoder does drop the names of the elements when it is given the element tag
  \<open>struct_value\<close>: an element is a default-constructed struct that reads its children
  only.
\<close>

lemma struct_element_names_are_dropped:
  "serialize (Suc (Suc 0))
     \<lparr>stream_impl = 4 # 5 # string_bytes ''arr''
        @ payload (array_struct ''arr'' [Argument_struct ''e'' [int32_arg ''a'' 1]]),
      failbit = False\<rparr>
   = Returns (array_struct ''arr'' [Argument_struct [] [int32_arg ''a'' 1]],
        \<lparr>stream_impl = [], failbit = False\<rparr>)"
  by code_simp

text \<open>
  Claim C10: an array of structs should come back with its elements unnamed. It does
  not come back at all. The array writes the element tag \<open>count\<close>, for which the entry
  of the registry returns the null pointer, and the assertion in \<open>serialize\<close> fails, for
  every name and every list of elements.
\<close>

theorem struct_array_is_not_decodable:
  "serialize (Suc fuel) (write_argument (array_struct n elements) mock_stream_default)
     = Fails assertion_failed"
  by (simp add: mock_stream_default_def write_argument_appends underlying_simps
      read_enum_good map_of_factory_impl res_bind_def array_factory_def
      del: write_argument.simps)

end
